theory Spec2Isabelle
  imports Complex_Main "HOL-Library.Multiset"
begin

section \<open>Data model\<close>

text \<open>
  Python scalars that pass \<^verbatim>\<open>isinstance(v, (int, float))\<close>. \<^verbatim>\<open>bool\<close> is a subclass of
  \<^verbatim>\<open>int\<close> in Python, so a boolean passes the same test. Floats are idealised as reals
  (no NaN, no rounding).
\<close>

datatype scalar = PyInt int | PyFloat real | PyBool bool

fun num_of :: "scalar \<Rightarrow> real" where
  "num_of (PyInt i) = real_of_int i"
| "num_of (PyFloat r) = r"
| "num_of (PyBool b) = (if b then 1 else 0)"

type_synonym attrs = "(string \<times> string) list"

text \<open>
  A labeled array (\<^verbatim>\<open>xr.DataArray\<close>): dimension names, one size per dimension, integer
  coordinate labels for the dimensions that carry them, the values in row-major order,
  and the attribute metadata. An \<^verbatim>\<open>xr.Dataset\<close>, which the source reaches only through
  the same \<^verbatim>\<open>.dims\<close> attribute, is not modelled apart.
\<close>

record DataArray =
  dims :: "string list"
  shape :: "nat list"
  coords :: "(string \<times> int list) list"
  vals :: "real list"
  attrs :: attrs

text \<open>
  The values a caller can hand to an argument: a scalar, a Python list of scalars,
  a labeled array, \<^verbatim>\<open>None\<close>, or any other object (a string, a tuple, a callable, ...),
  identified by a tag.
\<close>

datatype pyval =
    Scalar scalar
  | PyList "scalar list"
  | Array DataArray
  | PyNone
  | Other string

datatype error =
    ThresholdDimError "string list"
  | ThresholdTypeError
  | AttributeError
  | MissingDimensionError "string list"
  | ShapeError string
  | KernelComputationError
  | ReductionDimError

subsection \<open>Python predicates used by the source\<close>

fun is_list :: "pyval \<Rightarrow> bool" where
  "is_list (PyList _) = True"
| "is_list _ = False"

fun is_xr :: "pyval \<Rightarrow> bool" where
  "is_xr (Array _) = True"
| "is_xr _ = False"

fun is_int_or_float :: "pyval \<Rightarrow> bool" where
  "is_int_or_float (Scalar _) = True"
| "is_int_or_float _ = False"

subsection \<open>Construction of labeled arrays\<close>

text \<open>\<^verbatim>\<open>xr.DataArray(v)\<close> for a bare scalar \<^verbatim>\<open>v\<close>: a zero-dimensional array.\<close>

definition DataArray_scalar :: "scalar \<Rightarrow> DataArray" where
  "DataArray_scalar v =
     \<lparr>dims = [], shape = [], coords = [], vals = [num_of v], attrs = []\<rparr>"

text \<open>\<^verbatim>\<open>xr.DataArray(xs, dims=d)\<close> for a list of scalars: one dimension, no coordinates.\<close>

definition DataArray_1d :: "scalar list \<Rightarrow> string \<Rightarrow> DataArray" where
  "DataArray_1d xs d =
     \<lparr>dims = [d], shape = [length xs], coords = [], vals = map num_of xs, attrs = []\<rparr>"

text \<open>\<^verbatim>\<open>np.arange(lo, hi)\<close> on integers.\<close>

definition arange :: "int \<Rightarrow> int \<Rightarrow> int list" where
  "arange lo hi = [lo..hi - 1]"

text \<open>\<^verbatim>\<open>a[d] = labels\<close>: set the coordinate labels of dimension \<^verbatim>\<open>d\<close>.\<close>

definition assign_coord :: "DataArray \<Rightarrow> string \<Rightarrow> int list \<Rightarrow> DataArray" where
  "assign_coord a d labels =
     a\<lparr>coords := (d, labels) # filter (\<lambda>(k, _). k \<noteq> d) (coords a)\<rparr>"

text \<open>\<^verbatim>\<open>a.<d>.size\<close>: the size of dimension \<^verbatim>\<open>d\<close>.\<close>

definition dim_size :: "DataArray \<Rightarrow> string \<Rightarrow> nat" where
  "dim_size a d = (case map_of (zip (dims a) (shape a)) d of Some n \<Rightarrow> n | None \<Rightarrow> 1)"

section \<open>threshold\_brier\_score: the threshold argument (lines 306 to 326)\<close>

text \<open>
  \<^verbatim>\<open>list.sort()\<close> is a stable ascending sort that works in place: the caller's list
  object holds the sorted values afterwards.
\<close>

definition list_sort :: "scalar list \<Rightarrow> scalar list" where
  "list_sort xs = sort_key num_of xs"

text \<open>
  Lines 306 to 309. The result is the pair of the caller's threshold object as the
  statements leave it, and the value the local name \<^verbatim>\<open>threshold\<close> is bound to.
\<close>

fun materialize_threshold :: "pyval \<Rightarrow> pyval \<times> pyval" where
  "materialize_threshold (PyList xs) =
     (let sorted_xs = list_sort xs;
          t = DataArray_1d sorted_xs ''threshold'';
          t = assign_coord t ''threshold''
                (arange 1 (1 + int (dim_size t ''threshold'')))
      in (PyList sorted_xs, Array t))"
| "materialize_threshold v = (v, v)"

text \<open>Lines 311 to 326: the core dimensions of the three inputs and of the output.\<close>

fun threshold_core_dims ::
  "string \<Rightarrow> pyval \<Rightarrow> error + (string list list \<times> string list list)" where
  "threshold_core_dims member_dim (Array t) =
     (if ''threshold'' \<notin> set (dims t) then Inl (ThresholdDimError (dims t))
      else Inr ([[], [member_dim], [''threshold'']], [[''threshold'']]))"
| "threshold_core_dims member_dim (Scalar _) =
     Inr ([[], [member_dim], []], [[]])"
| "threshold_core_dims member_dim _ = Inl ThresholdTypeError"

section \<open>The labeled-array operations the module calls\<close>

text \<open>
  The module calls \<^verbatim>\<open>xr.apply_ufunc\<close>, \<^verbatim>\<open>xr.broadcast\<close>, \<^verbatim>\<open>.mean\<close> and
  \<^verbatim>\<open>.weighted(w).mean\<close>; their code is not part of the module. They are modelled here
  from the specification's sections 3 and 4. The numeric kernels are parameters.
\<close>

definition bind_err :: "error + 'a \<Rightarrow> ('a \<Rightarrow> error + 'b) \<Rightarrow> error + 'b" where
  "bind_err r f = (case r of Inl e \<Rightarrow> Inl e | Inr x \<Rightarrow> f x)"

subsection \<open>Indexing\<close>

definition indices :: "nat list \<Rightarrow> nat list list" where
  "indices shp = product_lists (map (\<lambda>n. [0..<n]) shp)"

fun ravel :: "nat list \<Rightarrow> nat list \<Rightarrow> nat" where
  "ravel (n # ns) (i # is) = i * prod_list ns + ravel ns is"
| "ravel _ _ = 0"

definition at_index :: "DataArray \<Rightarrow> nat list \<Rightarrow> real" where
  "at_index a idx = vals a ! ravel (shape a) idx"

text \<open>The position along dimension \<open>d\<close> of an index over the dimensions \<open>ds\<close>.\<close>

definition position :: "string list \<Rightarrow> nat list \<Rightarrow> string \<Rightarrow> nat" where
  "position ds idx d = (case map_of (zip ds idx) d of Some k \<Rightarrow> k | None \<Rightarrow> 0)"

definition named_index :: "string list \<Rightarrow> nat list \<Rightarrow> string list \<Rightarrow> nat list" where
  "named_index ds idx want = map (position ds idx) want"

text \<open>The positions of an index along the dimensions that are not in \<open>rd\<close>.\<close>

definition kept_part :: "string list \<Rightarrow> string list \<Rightarrow> nat list \<Rightarrow> nat list" where
  "kept_part ds rd idx = map snd (filter (\<lambda>(d, _). d \<notin> set rd) (zip ds idx))"

subsection \<open>Kernel Dispatcher\<close>

fun arg_dims :: "pyval \<Rightarrow> string list" where
  "arg_dims (Array a) = dims a"
| "arg_dims _ = []"

fun arg_size :: "pyval \<Rightarrow> string \<Rightarrow> nat option" where
  "arg_size (Array a) d = map_of (zip (dims a) (shape a)) d"
| "arg_size _ d = None"

fun arg_coord :: "pyval \<Rightarrow> string \<Rightarrow> int list option" where
  "arg_coord (Array a) d = map_of (coords a) d"
| "arg_coord _ d = None"

fun arg_attrs :: "pyval \<Rightarrow> attrs" where
  "arg_attrs (Array a) = attrs a"
| "arg_attrs _ = []"

definition add_dim :: "string list \<Rightarrow> string \<Rightarrow> string list" where
  "add_dim acc d = (if d \<in> set acc then acc else acc @ [d])"

definition ordered_union :: "string list \<Rightarrow> string list" where
  "ordered_union ds = foldl add_dim [] ds"

text \<open>A declared core dimension that its input does not have.\<close>

definition lacks_core_dim :: "pyval \<times> string list \<Rightarrow> bool" where
  "lacks_core_dim operand = (case operand of (v, cds) \<Rightarrow> \<not> set cds \<subseteq> set (arg_dims v))"

definition broadcast_dims :: "(pyval \<times> string list) list \<Rightarrow> string list" where
  "broadcast_dims operands =
     ordered_union (concat (map (\<lambda>(v, cds). filter (\<lambda>d. d \<notin> set cds) (arg_dims v)) operands))"

text \<open>The one size the inputs give a dimension; none when they disagree or none has it.\<close>

definition common_size :: "pyval list \<Rightarrow> string \<Rightarrow> nat option" where
  "common_size args d =
     (case remdups (List.map_filter (\<lambda>v. arg_size v d) args) of [n] \<Rightarrow> Some n | _ \<Rightarrow> None)"

definition first_coord :: "pyval list \<Rightarrow> string \<Rightarrow> (string \<times> int list) list" where
  "first_coord args d =
     (case List.map_filter (\<lambda>v. arg_coord v d) args of [] \<Rightarrow> [] | c # _ \<Rightarrow> [(d, c)])"

type_synonym kernel = "(pyval \<times> string list) list \<Rightarrow> error + real list"

text \<open>
  Modelled from the spec: \<^verbatim>\<open>xr.apply_ufunc\<close> (sections 3, 4.2 and 4.3). A declared core
  dimension absent from its input fails the call; the output has the inputs' other
  dimensions and the output core dimensions; the kernel's failure is passed on; the
  result has the first input's metadata when \<open>keep_attrs\<close> is set and none otherwise.
\<close>

definition apply_ufunc ::
  "kernel \<Rightarrow> pyval list \<Rightarrow> string list list \<Rightarrow> string list list \<Rightarrow> bool
   \<Rightarrow> error + DataArray" where
  "apply_ufunc func args input_core_dims output_core_dims keep_attrs =
     (let operands = zip args input_core_dims in
      case filter lacks_core_dim operands of
        (_, cds) # _ \<Rightarrow> Inl (MissingDimensionError cds)
      | [] \<Rightarrow>
         (let out_dims = broadcast_dims operands @ concat output_core_dims in
          case those (map (common_size args) out_dims) of
            None \<Rightarrow> Inl (ShapeError ''apply_ufunc'')
          | Some out_shape \<Rightarrow>
             (case func operands of
                Inl e \<Rightarrow> Inl e
              | Inr vs \<Rightarrow>
                 if length vs \<noteq> prod_list out_shape then Inl KernelComputationError
                 else Inr \<lparr>dims = out_dims, shape = out_shape,
                           coords = concat (map (first_coord args) out_dims),
                           vals = vs,
                           attrs = (if keep_attrs then arg_attrs (hd args) else [])\<rparr>)))"

subsection \<open>Shape Normalizer\<close>

definition expand_to :: "DataArray \<Rightarrow> string list \<Rightarrow> nat list \<Rightarrow> DataArray" where
  "expand_to a ds shp =
     a\<lparr>dims := ds, shape := shp,
       vals := map (\<lambda>idx. at_index a (named_index ds idx (dims a))) (indices shp)\<rparr>"

text \<open>
  Modelled from the spec: \<^verbatim>\<open>xr.broadcast\<close> of two arrays (section 4.1). Both results
  have the union of the two dimension lists; a shared dimension with two sizes is an
  error.
\<close>

definition xr_broadcast :: "DataArray \<Rightarrow> DataArray \<Rightarrow> error + (DataArray \<times> DataArray)" where
  "xr_broadcast a b =
     (let ds = ordered_union (dims a @ dims b) in
      case those (map (common_size [Array a, Array b]) ds) of
        None \<Rightarrow> Inl (ShapeError ''broadcast'')
      | Some shp \<Rightarrow> Inr (expand_to a ds shp, expand_to b ds shp))"

subsection \<open>Reduction Stage\<close>

datatype dim_arg = DimStr string | DimList "string list"

fun reduction_dims :: "DataArray \<Rightarrow> dim_arg option \<Rightarrow> string list" where
  "reduction_dims a None = dims a"
| "reduction_dims a (Some (DimStr d)) = [d]"
| "reduction_dims a (Some (DimList ds)) = ds"

text \<open>The cells of \<open>a\<close> that the output cell \<open>j\<close> is reduced from.\<close>

definition cells_of :: "DataArray \<Rightarrow> string list \<Rightarrow> nat list \<Rightarrow> nat list list" where
  "cells_of a rd j = filter (\<lambda>idx. kept_part (dims a) rd idx = j) (indices (shape a))"

definition reduce_with ::
  "(nat list list \<Rightarrow> real) \<Rightarrow> DataArray \<Rightarrow> string list \<Rightarrow> bool \<Rightarrow> DataArray" where
  "reduce_with f a rd keep_attrs =
     (let kept = filter (\<lambda>(d, _). d \<notin> set rd) (zip (dims a) (shape a)) in
      \<lparr>dims = map fst kept, shape = map snd kept,
       coords = filter (\<lambda>(d, _). d \<notin> set rd) (coords a),
       vals = map (\<lambda>j. f (cells_of a rd j)) (indices (map snd kept)),
       attrs = (if keep_attrs then attrs a else [])\<rparr>)"

definition arithmetic_mean :: "real list \<Rightarrow> real" where
  "arithmetic_mean xs = sum_list xs / real (length xs)"

text \<open>
  Modelled from the spec: \<^verbatim>\<open>res.mean(dim, keep_attrs=...)\<close> (section 4.4), the unweighted
  arithmetic mean over the requested dimensions, all of them when the \<^verbatim>\<open>dim\<close> argument is \<^verbatim>\<open>None\<close>.
\<close>

definition mean :: "DataArray \<Rightarrow> dim_arg option \<Rightarrow> bool \<Rightarrow> error + DataArray" where
  "mean res dim' keep_attrs =
     (let rd = reduction_dims res dim' in
      if \<not> set rd \<subseteq> set (dims res) then Inl ReductionDimError
      else Inr (reduce_with (\<lambda>cells. arithmetic_mean (map (at_index res) cells))
                  res rd keep_attrs))"

definition weight_at :: "DataArray \<Rightarrow> DataArray \<Rightarrow> nat list \<Rightarrow> real" where
  "weight_at res w idx = at_index w (named_index (dims res) idx (dims w))"

text \<open>
  Modelled from the spec: \<^verbatim>\<open>res.weighted(weights).mean(dim, keep_attrs=...)\<close>
  (section 4.4), \<open>sum(value * weight) / sum(weight)\<close> over the requested dimensions,
  the dimensions of the weights being among them and of the same sizes.
\<close>

definition weighted_mean ::
  "DataArray \<Rightarrow> DataArray \<Rightarrow> dim_arg option \<Rightarrow> bool \<Rightarrow> error + DataArray" where
  "weighted_mean res w dim' keep_attrs =
     (let rd = reduction_dims res dim' in
      if \<not> set rd \<subseteq> set (dims res) then Inl ReductionDimError
      else if \<not> set (dims w) \<subseteq> set rd then Inl ReductionDimError
      else if map (dim_size res) (dims w) \<noteq> shape w then Inl (ShapeError ''weights'')
      else Inr (reduce_with
                  (\<lambda>cells. sum_list (map (\<lambda>idx. at_index res idx * weight_at res w idx) cells)
                            / sum_list (map (weight_at res w) cells))
                  res rd keep_attrs))"

section \<open>The five operations\<close>

text \<open>
  Each operation takes the numeric kernel of \<^verbatim>\<open>properscoring\<close> it dispatches to as its
  first parameter; keyword arguments of the kernel come before its operands.
\<close>

subsection \<open>crps\_gaussian\<close>

text \<open>\<^verbatim>\<open>v.dims\<close>: only a labeled array has the attribute.\<close>

fun dims_attr :: "pyval \<Rightarrow> error + string list" where
  "dims_attr (Array a) = Inr (dims a)"
| "dims_attr _ = Inl AttributeError"

text \<open>\<^verbatim>\<open>if isinstance(v, (int, float)): v = xr.DataArray(v)\<close>\<close>

fun promote :: "pyval \<Rightarrow> pyval" where
  "promote (Scalar s) = Array (DataArray_scalar s)"
| "promote v = v"

text \<open>
  \<^verbatim>\<open>if other.dims != observations.dims: observations, other = xr.broadcast(observations, other)\<close>
\<close>

definition broadcast_if_differ :: "pyval \<Rightarrow> pyval \<Rightarrow> error + (pyval \<times> pyval)" where
  "broadcast_if_differ observations other =
     bind_err (dims_attr other) (\<lambda>other_dims.
     bind_err (dims_attr observations) (\<lambda>obs_dims.
       if other_dims \<noteq> obs_dims then
         (case (observations, other) of
            (Array a, Array b) \<Rightarrow>
              bind_err (xr_broadcast a b) (\<lambda>(a', b'). Inr (Array a', Array b'))
          | _ \<Rightarrow> Inl AttributeError)
       else Inr (observations, other)))"

text \<open>Lines 47 to 54.\<close>

definition shape_normalizer ::
  "pyval \<Rightarrow> pyval \<Rightarrow> pyval \<Rightarrow> error + (pyval \<times> pyval \<times> pyval)" where
  "shape_normalizer observations mu sig =
     (let mu = promote mu;
          sig = promote sig
      in bind_err (broadcast_if_differ observations mu) (\<lambda>(observations, mu).
         bind_err (broadcast_if_differ observations sig) (\<lambda>(observations, sig).
           Inr (observations, mu, sig))))"


subsection \<open>crps\_quadrature\<close>


subsection \<open>crps\_ensemble\<close>

definition crps_ensemble ::
  "(int \<Rightarrow> bool \<Rightarrow> pyval \<Rightarrow> kernel) \<Rightarrow> pyval \<Rightarrow> pyval \<Rightarrow> pyval \<Rightarrow> bool \<Rightarrow> string
   \<Rightarrow> dim_arg option \<Rightarrow> DataArray option \<Rightarrow> bool \<Rightarrow> error + DataArray" where
  "crps_ensemble properscoring_crps_ensemble observations forecasts member_weights issorted
     member_dim dim' weights keep_attrs =
     bind_err (apply_ufunc (properscoring_crps_ensemble (- 1) issorted member_weights)
                 [observations, forecasts] [[], [member_dim]] [[]] keep_attrs) (\<lambda>res.
       case weights of
         Some w \<Rightarrow> weighted_mean res w dim' keep_attrs
       | None \<Rightarrow> mean res dim' keep_attrs)"

subsection \<open>brier\_score\<close>


subsection \<open>threshold\_brier\_score\<close>

text \<open>
  The result is the pair of the caller's \<^verbatim>\<open>threshold\<close> object as the call leaves it and
  the outcome of the call.
\<close>

definition threshold_brier_score ::
  "(int \<Rightarrow> bool \<Rightarrow> kernel) \<Rightarrow> pyval \<Rightarrow> pyval \<Rightarrow> pyval \<Rightarrow> bool \<Rightarrow> string
   \<Rightarrow> dim_arg option \<Rightarrow> DataArray option \<Rightarrow> bool \<Rightarrow> pyval \<times> (error + DataArray)" where
  "threshold_brier_score properscoring_threshold_brier_score observations forecasts threshold
     issorted member_dim dim' weights keep_attrs =
     (let (caller_threshold, threshold) = materialize_threshold threshold
      in (caller_threshold,
          bind_err (threshold_core_dims member_dim threshold)
            (\<lambda>(input_core_dims, output_core_dims).
          bind_err (apply_ufunc (properscoring_threshold_brier_score (- 1) issorted)
                      [observations, forecasts, threshold]
                      input_core_dims output_core_dims keep_attrs) (\<lambda>res.
            case weights of
              Some w \<Rightarrow> weighted_mean res w dim' keep_attrs
            | None \<Rightarrow> mean res dim' keep_attrs))))"

text \<open>The default of the \<^verbatim>\<open>member_dim\<close> parameter.\<close>

definition default_member_dim :: string where
  "default_member_dim = ''member''"

subsection \<open>Multi-variable containers\<close>



section \<open>The operations on a store of objects\<close>

text \<open>
  Python passes every argument as a reference to an object. To speak of what a call
  does to its arguments, the objects live in a store, an argument is the address of its
  object, and each statement of the source acts on the store: constructing a value puts
  a new object at the next free address, rebinding a local name changes no object, and
  only \<^verbatim>\<open>list.sort()\<close> and the coordinate assignment write to an object that exists.
  The library calls (\<^verbatim>\<open>xr.DataArray\<close>, \<^verbatim>\<open>xr.broadcast\<close>, \<^verbatim>\<open>xr.apply_ufunc\<close>, \<^verbatim>\<open>.mean\<close>,
  \<^verbatim>\<open>.weighted(w).mean\<close>) read their operands and return new objects, as the
  specification's data model has it.
\<close>

type_synonym store = "pyval list"

type_synonym 'a st = "store \<Rightarrow> store \<times> (error + 'a)"

definition return_st :: "'a \<Rightarrow> 'a st" where
  "return_st x h = (h, Inr x)"

definition raise_st :: "error \<Rightarrow> 'a st" where
  "raise_st e h = (h, Inl e)"

definition bind_st :: "'a st \<Rightarrow> ('a \<Rightarrow> 'b st) \<Rightarrow> 'b st" where
  "bind_st m f h = (case m h of (h1, Inl e) \<Rightarrow> (h1, Inl e) | (h1, Inr x) \<Rightarrow> f x h1)"

text \<open>The object at an address.\<close>

definition read_st :: "nat \<Rightarrow> pyval st" where
  "read_st a h = (h, Inr (h ! a))"

text \<open>A new object, at the next free address.\<close>

definition new_st :: "pyval \<Rightarrow> nat st" where
  "new_st v h = (h @ [v], Inr (length h))"

text \<open>An update of the object at an address, in place.\<close>

definition write_st :: "nat \<Rightarrow> pyval \<Rightarrow> unit st" where
  "write_st a v h = (h[a := v], Inr ())"

text \<open>A value computed from objects already read, or the error raised instead.\<close>

definition value_st :: "error + 'a \<Rightarrow> 'a st" where
  "value_st outcome h = (h, outcome)"

text \<open>The outcome of a library call: its error, or a new object holding its result.\<close>

definition library_st :: "error + DataArray \<Rightarrow> nat st" where
  "library_st outcome =
     (case outcome of Inl e \<Rightarrow> raise_st e | Inr a \<Rightarrow> new_st (Array a))"

text \<open>
  The end of every operation:
  \<^verbatim>\<open>if weights is not None: return res.weighted(weights).mean(dim, keep_attrs=keep_attrs)\<close>
  \<^verbatim>\<open>else: return res.mean(dim, keep_attrs=keep_attrs)\<close>
\<close>

definition reduction_st :: "nat \<Rightarrow> dim_arg option \<Rightarrow> nat \<Rightarrow> bool \<Rightarrow> nat st" where
  "reduction_st res dim' weights keep_attrs =
     bind_st (read_st res) (\<lambda>res_obj.
     bind_st (read_st weights) (\<lambda>weights_obj.
       case (res_obj, weights_obj) of
         (Array r, PyNone) \<Rightarrow> library_st (mean r dim' keep_attrs)
       | (Array r, Array w) \<Rightarrow> library_st (weighted_mean r w dim' keep_attrs)
       | _ \<Rightarrow> raise_st AttributeError))"

text \<open>\<^verbatim>\<open>res = xr.apply_ufunc(func, *args, ...)\<close> on the objects at the addresses \<open>args\<close>.\<close>

definition apply_ufunc_st ::
  "kernel \<Rightarrow> nat list \<Rightarrow> string list list \<Rightarrow> string list list \<Rightarrow> bool \<Rightarrow> nat st" where
  "apply_ufunc_st func args input_core_dims output_core_dims keep_attrs h =
     library_st (apply_ufunc func (map ((!) h) args) input_core_dims output_core_dims
                   keep_attrs) h"

subsection \<open>crps\_gaussian\<close>

text \<open>\<^verbatim>\<open>if isinstance(v, (int, float)): v = xr.DataArray(v)\<close>: the name is rebound.\<close>

definition promote_st :: "nat \<Rightarrow> nat st" where
  "promote_st v =
     bind_st (read_st v) (\<lambda>obj.
       if is_int_or_float obj then new_st (promote obj) else return_st v)"

text \<open>
  \<^verbatim>\<open>if other.dims != observations.dims: observations, other = xr.broadcast(observations, other)\<close>:
  both names are rebound to the new objects.
\<close>

definition broadcast_if_differ_st :: "nat \<Rightarrow> nat \<Rightarrow> (nat \<times> nat) st" where
  "broadcast_if_differ_st observations other =
     bind_st (read_st other) (\<lambda>other_obj.
     bind_st (value_st (dims_attr other_obj)) (\<lambda>other_dims.
     bind_st (read_st observations) (\<lambda>obs_obj.
     bind_st (value_st (dims_attr obs_obj)) (\<lambda>obs_dims.
       if other_dims \<noteq> obs_dims then
         (case (obs_obj, other_obj) of
            (Array a, Array b) \<Rightarrow>
              bind_st (value_st (xr_broadcast a b)) (\<lambda>(a', b').
              bind_st (new_st (Array a')) (\<lambda>observations.
              bind_st (new_st (Array b')) (\<lambda>other.
                return_st (observations, other))))
          | _ \<Rightarrow> raise_st AttributeError)
       else return_st (observations, other)))))"

definition crps_gaussian_st ::
  "kernel \<Rightarrow> nat \<Rightarrow> nat \<Rightarrow> nat \<Rightarrow> dim_arg option \<Rightarrow> nat \<Rightarrow> bool \<Rightarrow> nat st" where
  "crps_gaussian_st properscoring_crps_gaussian observations mu sig dim' weights keep_attrs =
     bind_st (promote_st mu) (\<lambda>mu.
     bind_st (promote_st sig) (\<lambda>sig.
     bind_st (broadcast_if_differ_st observations mu) (\<lambda>(observations, mu).
     bind_st (broadcast_if_differ_st observations sig) (\<lambda>(observations, sig).
     bind_st (apply_ufunc_st properscoring_crps_gaussian [observations, mu, sig]
                [[], [], []] [[]] keep_attrs) (\<lambda>res.
       reduction_st res dim' weights keep_attrs)))))"

subsection \<open>crps\_quadrature\<close>

definition crps_quadrature_st ::
  "kernel \<Rightarrow> nat \<Rightarrow> nat \<Rightarrow> nat \<Rightarrow> nat \<Rightarrow> nat \<Rightarrow> dim_arg option \<Rightarrow> nat \<Rightarrow> bool \<Rightarrow> nat st" where
  "crps_quadrature_st properscoring_crps_quadrature x cdf_or_dist xmin xmax tol dim' weights
     keep_attrs =
     bind_st (apply_ufunc_st properscoring_crps_quadrature [x, cdf_or_dist, xmin, xmax, tol]
                [[], [], [], [], []] [[]] keep_attrs) (\<lambda>res.
       reduction_st res dim' weights keep_attrs)"

subsection \<open>crps\_ensemble\<close>

definition crps_ensemble_st ::
  "(int \<Rightarrow> bool \<Rightarrow> pyval \<Rightarrow> kernel) \<Rightarrow> nat \<Rightarrow> nat \<Rightarrow> nat \<Rightarrow> bool \<Rightarrow> string
   \<Rightarrow> dim_arg option \<Rightarrow> nat \<Rightarrow> bool \<Rightarrow> nat st" where
  "crps_ensemble_st properscoring_crps_ensemble observations forecasts member_weights issorted
     member_dim dim' weights keep_attrs =
     bind_st (read_st member_weights) (\<lambda>member_weights_obj.
     bind_st (apply_ufunc_st (properscoring_crps_ensemble (- 1) issorted member_weights_obj)
                [observations, forecasts] [[], [member_dim]] [[]] keep_attrs) (\<lambda>res.
       reduction_st res dim' weights keep_attrs))"

subsection \<open>brier\_score\<close>

definition brier_score_st ::
  "kernel \<Rightarrow> nat \<Rightarrow> nat \<Rightarrow> dim_arg option \<Rightarrow> nat \<Rightarrow> bool \<Rightarrow> nat st" where
  "brier_score_st properscoring_brier_score observations forecasts dim' weights keep_attrs =
     bind_st (apply_ufunc_st properscoring_brier_score [observations, forecasts]
                [[], []] [[]] keep_attrs) (\<lambda>res.
       reduction_st res dim' weights keep_attrs)"

subsection \<open>threshold\_brier\_score\<close>

text \<open>
  Lines 306 to 309: \<^verbatim>\<open>threshold.sort()\<close> writes to the caller's list;
  \<^verbatim>\<open>threshold = xr.DataArray(threshold, dims='threshold')\<close> rebinds the name to a new array;
  the coordinate assignment writes to that new array.
\<close>

definition materialize_threshold_st :: "nat \<Rightarrow> nat st" where
  "materialize_threshold_st threshold =
     bind_st (read_st threshold) (\<lambda>threshold_obj.
       case threshold_obj of
         PyList xs \<Rightarrow>
           bind_st (write_st threshold (PyList (list_sort xs))) (\<lambda>_.
           bind_st (new_st (Array (DataArray_1d (list_sort xs) ''threshold''))) (\<lambda>t.
           bind_st (write_st t
                      (Array (assign_coord (DataArray_1d (list_sort xs) ''threshold'') ''threshold''
                         (arange 1 (1 + int (dim_size (DataArray_1d (list_sort xs) ''threshold'')
                                                ''threshold'')))))) (\<lambda>_.
             return_st t)))
       | _ \<Rightarrow> return_st threshold)"

definition threshold_brier_score_st ::
  "(int \<Rightarrow> bool \<Rightarrow> kernel) \<Rightarrow> nat \<Rightarrow> nat \<Rightarrow> nat \<Rightarrow> bool \<Rightarrow> string
   \<Rightarrow> dim_arg option \<Rightarrow> nat \<Rightarrow> bool \<Rightarrow> nat st" where
  "threshold_brier_score_st properscoring_threshold_brier_score observations forecasts threshold
     issorted member_dim dim' weights keep_attrs =
     bind_st (materialize_threshold_st threshold) (\<lambda>threshold.
     bind_st (read_st threshold) (\<lambda>threshold_obj.
     bind_st (value_st (threshold_core_dims member_dim threshold_obj))
       (\<lambda>(input_core_dims, output_core_dims).
     bind_st (apply_ufunc_st (properscoring_threshold_brier_score (- 1) issorted)
                [observations, forecasts, threshold]
                input_core_dims output_core_dims keep_attrs) (\<lambda>res.
       reduction_st res dim' weights keep_attrs))))"

subsection \<open>What a call leaves behind\<close>

text \<open>The store after \<^verbatim>\<open>list.sort()\<close> on the object at an address, if it is a list.\<close>

definition sort_in_place :: "store \<Rightarrow> nat \<Rightarrow> store" where
  "sort_in_place h a = (case h ! a of PyList xs \<Rightarrow> h[a := PyList (list_sort xs)] | _ \<Rightarrow> h)"

text \<open>Every object that existed before the call is the same after it.\<close>

definition inputs_unchanged :: "store \<Rightarrow> store \<times> (error + nat) \<Rightarrow> bool" where
  "inputs_unchanged h outcome = (take (length h) (fst outcome) = h)"

text \<open>The result, when there is one, is a labeled array that did not exist before the call.\<close>

definition result_is_new :: "store \<Rightarrow> store \<times> (error + nat) \<Rightarrow> bool" where
  "result_is_new h outcome =
     (case snd outcome of
        Inl e \<Rightarrow> True
      | Inr r \<Rightarrow> length h \<le> r \<and> r < length (fst outcome) \<and> is_xr (fst outcome ! r))"

text \<open>A computation that only adds objects, and one whose result is such an added array.\<close>

definition grows :: "'a st \<Rightarrow> bool" where
  "grows m = (\<forall>h. \<exists>zs. fst (m h) = h @ zs)"

definition fresh :: "nat st \<Rightarrow> bool" where
  "fresh m = (\<forall>h. result_is_new h (m h))"

section \<open>Properties as the specification words them\<close>



section \<open>Example inputs\<close>

text \<open>
  Two observations along \<^verbatim>\<open>x\<close> with metadata, a probability forecast, a two-member
  ensemble forecast, uniform weights, and a stand-in kernel that returns two scores.
\<close>

definition example_observations :: DataArray where
  "example_observations =
     \<lparr>dims = [''x''], shape = [2], coords = [], vals = [1, 0], attrs = [(''units'', ''K'')]\<rparr>"

definition example_forecasts :: DataArray where
  "example_forecasts =
     \<lparr>dims = [''x''], shape = [2], coords = [], vals = [1 / 2, 1 / 4],
      attrs = [(''source'', ''model'')]\<rparr>"

definition example_ensemble :: DataArray where
  "example_ensemble =
     \<lparr>dims = [''x'', ''member''], shape = [2, 2], coords = [], vals = [1, 2, 3, 4],
      attrs = [(''source'', ''model'')]\<rparr>"

definition example_weights :: DataArray where
  "example_weights = \<lparr>dims = [''x''], shape = [2], coords = [], vals = [1, 1], attrs = []\<rparr>"

definition example_kernel :: kernel where
  "example_kernel operands = Inr [1 / 4, 3 / 4]"





text \<open>A store holding the example inputs, an unsorted list of thresholds and \<^verbatim>\<open>None\<close>.\<close>

definition example_store :: store where
  "example_store =
     [Array example_observations, Array example_ensemble, Array example_forecasts,
      PyList [PyInt 2, PyInt 1], PyNone, Scalar (PyInt 0), Scalar (PyFloat 1), Other ''norm'',
      Scalar (PyFloat (1 / 1000000))]"

section \<open>Auxiliary facts\<close>

lemma map_insort_key: "map f (insort_key f x xs) = insort (f x) (map f xs)"
  by (induction xs) simp_all

lemma map_sort_key: "map f (sort_key f xs) = sort (map f xs)"
  by (induction xs) (simp_all add: map_insort_key)

lemma bind_err_Inr: "bind_err r f = Inr y \<longleftrightarrow> (\<exists>x. r = Inr x \<and> f x = Inr y)"
  by (cases r) (simp_all add: bind_err_def)

























lemma set_foldl_add_dim: "set (foldl add_dim acc ds) = set acc \<union> set ds"
  by (induction ds arbitrary: acc) (auto simp: add_dim_def)

lemma set_ordered_union: "set (ordered_union ds) = set ds"
  by (simp add: ordered_union_def set_foldl_add_dim)

lemma broadcast_if_differ_dims:
  assumes "broadcast_if_differ obs other = Inr (obs', other')"
  shows "\<exists>a b a' b'. obs = Array a \<and> other = Array b \<and> obs' = Array a' \<and> other' = Array b'
           \<and> set (dims a') = set (dims a) \<union> set (dims b) \<and> dims b' = dims a'"
proof -
  from assms obtain a b where ab: "obs = Array a" "other = Array b"
    by (cases obs; cases other) (simp_all add: broadcast_if_differ_def bind_err_def)
  show ?thesis
  proof (cases "dims b = dims a")
    case True
    with assms ab show ?thesis
      by (auto simp: broadcast_if_differ_def bind_err_def)
  next
    case False
    with assms ab show ?thesis
      by (auto simp: broadcast_if_differ_def bind_err_def xr_broadcast_def expand_to_def
          Let_def set_ordered_union split: option.splits)
  qed
qed

lemma broadcast_if_differ_same:
  "dims b = dims a \<Longrightarrow> broadcast_if_differ (Array a) (Array b) = Inr (Array a, Array b)"
  by (simp add: broadcast_if_differ_def bind_err_def)
















lemma grows_return: "grows (return_st x)"
  by (simp add: grows_def return_st_def)

lemma grows_raise: "grows (raise_st e)"
  by (simp add: grows_def raise_st_def)

lemma grows_read: "grows (read_st a)"
  by (simp add: grows_def read_st_def)

lemma grows_value: "grows (value_st r)"
  by (simp add: grows_def value_st_def)

lemma grows_new: "grows (new_st v)"
  by (simp add: grows_def new_st_def)

lemma grows_library: "grows (library_st r)"
  by (cases r) (simp_all add: library_st_def grows_raise grows_new)

lemma grows_bind:
  assumes "grows m" and "\<And>x. grows (f x)"
  shows "grows (bind_st m f)"
  unfolding grows_def
proof
  fix h
  from assms(1) obtain zs where m: "fst (m h) = h @ zs" by (auto simp: grows_def)
  show "\<exists>zs. fst (bind_st m f h) = h @ zs"
  proof (cases "snd (m h)")
    case (Inl e)
    with m show ?thesis by (cases "m h") (auto simp: bind_st_def)
  next
    case (Inr x)
    from assms(2) [of x] have "\<exists>ys. fst (f x (h @ zs)) = (h @ zs) @ ys"
      unfolding grows_def by (rule spec)
    then obtain ys where "fst (f x (h @ zs)) = h @ (zs @ ys)" by auto
    with m Inr show ?thesis by (cases "m h") (auto simp: bind_st_def)
  qed
qed

lemma fresh_raise: "fresh (raise_st e)"
  by (simp add: fresh_def result_is_new_def raise_st_def)

lemma fresh_new: "is_xr v \<Longrightarrow> fresh (new_st v)"
  by (simp add: fresh_def result_is_new_def new_st_def)

lemma fresh_library: "fresh (library_st r)"
  by (cases r) (simp_all add: library_st_def fresh_raise fresh_new)

lemma fresh_bind:
  assumes "grows m" and "\<And>x. fresh (f x)"
  shows "fresh (bind_st m f)"
  unfolding fresh_def
proof
  fix h
  from assms(1) obtain zs where m: "fst (m h) = h @ zs" by (auto simp: grows_def)
  show "result_is_new h (bind_st m f h)"
  proof (cases "snd (m h)")
    case (Inl e)
    with m show ?thesis by (cases "m h") (auto simp: bind_st_def result_is_new_def)
  next
    case (Inr x)
    from assms(2) [of x] have "result_is_new (h @ zs) (f x (h @ zs))"
      by (simp add: fresh_def)
    then have "result_is_new h (f x (h @ zs))"
      by (auto simp: result_is_new_def split: sum.splits)
    with m Inr show ?thesis by (cases "m h") (auto simp: bind_st_def)
  qed
qed

lemma grows_apply_ufunc: "grows (apply_ufunc_st func args icd ocd keep_attrs)"
  using grows_library by (simp add: grows_def apply_ufunc_st_def)

lemma grows_reduction: "grows (reduction_st res d weights keep_attrs)"
  unfolding reduction_st_def
  by (intro grows_bind grows_read)
     (auto split: pyval.splits intro: grows_library grows_raise)

lemma fresh_reduction: "fresh (reduction_st res d weights keep_attrs)"
  unfolding reduction_st_def
  by (intro fresh_bind grows_read)
     (auto split: pyval.splits intro: fresh_library fresh_raise)

lemma grows_promote: "grows (promote_st v)"
  unfolding promote_st_def
  by (intro grows_bind grows_read) (simp add: grows_new grows_return)

lemma grows_broadcast_if_differ: "grows (broadcast_if_differ_st observations other)"
  unfolding broadcast_if_differ_st_def
  by (intro grows_bind grows_read grows_value)
     (auto split: pyval.splits intro!: grows_bind grows_value grows_new grows_return grows_raise)

lemma inputs_unchanged_grows: "grows m \<Longrightarrow> inputs_unchanged h (m h)"
  by (auto simp: grows_def inputs_unchanged_def dest: spec [of _ h])

lemma crps_gaussian_st_frame:
  "grows (crps_gaussian_st k observations mu sig d weights keep_attrs)
   \<and> fresh (crps_gaussian_st k observations mu sig d weights keep_attrs)"
  unfolding crps_gaussian_st_def
  by (auto intro!: grows_bind fresh_bind grows_promote grows_broadcast_if_differ
      grows_apply_ufunc grows_reduction fresh_reduction)

lemma crps_quadrature_st_frame:
  "grows (crps_quadrature_st k x cdf_or_dist xmin xmax tol d weights keep_attrs)
   \<and> fresh (crps_quadrature_st k x cdf_or_dist xmin xmax tol d weights keep_attrs)"
  unfolding crps_quadrature_st_def
  by (auto intro!: grows_bind fresh_bind grows_apply_ufunc grows_reduction fresh_reduction)

lemma crps_ensemble_st_frame:
  "grows (crps_ensemble_st k observations forecasts member_weights issorted member_dim d weights
            keep_attrs)
   \<and> fresh (crps_ensemble_st k observations forecasts member_weights issorted member_dim d
            weights keep_attrs)"
  unfolding crps_ensemble_st_def
  by (auto intro!: grows_bind fresh_bind grows_read grows_apply_ufunc grows_reduction
      fresh_reduction)

lemma brier_score_st_frame:
  "grows (brier_score_st k observations forecasts d weights keep_attrs)
   \<and> fresh (brier_score_st k observations forecasts d weights keep_attrs)"
  unfolding brier_score_st_def
  by (auto intro!: grows_bind fresh_bind grows_apply_ufunc grows_reduction fresh_reduction)

lemma materialize_threshold_st_effect:
  "\<exists>t zs. materialize_threshold_st threshold h = (sort_in_place h threshold @ zs, Inr t)"
  by (cases "h ! threshold")
     (simp_all add: materialize_threshold_st_def sort_in_place_def bind_st_def read_st_def
        write_st_def new_st_def return_st_def list_update_append)

lemma length_sort_in_place: "length (sort_in_place h a) = length h"
  by (simp add: sort_in_place_def split: pyval.splits)

lemma threshold_brier_score_st_frame:
  "take (length h)
     (fst (threshold_brier_score_st k observations forecasts threshold issorted member_dim d
             weights keep_attrs h)) = sort_in_place h threshold
   \<and> result_is_new h (threshold_brier_score_st k observations forecasts threshold issorted
                        member_dim d weights keep_attrs h)"
proof -
  let ?rest = "\<lambda>threshold.
     bind_st (read_st threshold) (\<lambda>threshold_obj.
     bind_st (value_st (threshold_core_dims member_dim threshold_obj))
       (\<lambda>(input_core_dims, output_core_dims).
     bind_st (apply_ufunc_st (k (- 1) issorted) [observations, forecasts, threshold]
                input_core_dims output_core_dims keep_attrs) (\<lambda>res.
       reduction_st res d weights keep_attrs)))"
  have g: "grows (?rest t)" for t
    by (auto intro!: grows_bind grows_read grows_value grows_apply_ufunc grows_reduction)
  have f: "fresh (?rest t)" for t
    by (auto intro!: fresh_bind grows_read grows_value grows_apply_ufunc fresh_reduction)
  from materialize_threshold_st_effect obtain t zs where
    m: "materialize_threshold_st threshold h = (sort_in_place h threshold @ zs, Inr t)"
    by blast
  let ?h1 = "sort_in_place h threshold @ zs"
  have op: "threshold_brier_score_st k observations forecasts threshold issorted member_dim d
              weights keep_attrs h = ?rest t ?h1"
    by (simp add: threshold_brier_score_st_def bind_st_def [of "materialize_threshold_st threshold"] m)
  from g [of t] obtain ys where ys: "fst (?rest t ?h1) = ?h1 @ ys"
    unfolding grows_def by blast
  from f [of t] have "result_is_new ?h1 (?rest t ?h1)" by (simp add: fresh_def)
  then have "result_is_new h (?rest t ?h1)"
    by (auto simp: result_is_new_def length_sort_in_place split: sum.splits)
  with ys show ?thesis
    unfolding op by (simp add: length_sort_in_place)
qed

lemma sort_in_place_threshold:
  "a < length h \<Longrightarrow>
   sort_in_place h a ! a = fst (materialize_threshold (h ! a))
   \<and> (\<forall>b. b \<noteq> a \<longrightarrow> sort_in_place h a ! b = h ! b)"
  by (cases "h ! a") (simp_all add: sort_in_place_def Let_def)

section \<open>The threshold argument\<close>

text \<open>
  C2. A threshold given as a list of scalars is materialized as a labeled array with the
  single dimension \<^verbatim>\<open>threshold\<close>, holding the values of the list sorted ascending, with
  the coordinate labels 1, 2, ..., n.
\<close>

theorem threshold_list_materialized:
  "snd (materialize_threshold (PyList xs)) =
     Array \<lparr>dims = [''threshold''], shape = [length xs],
            coords = [(''threshold'', [1..int (length xs)])],
            vals = sort (map num_of xs), attrs = []\<rparr>"
  by (simp add: Let_def DataArray_1d_def assign_coord_def list_sort_def arange_def
      dim_size_def map_sort_key)

text \<open>
  C3. The check of the threshold argument raises exactly when the argument is neither
  an \<^verbatim>\<open>int\<close>/\<^verbatim>\<open>float\<close> scalar, nor a list, nor a labeled array that has a dimension
  \<^verbatim>\<open>threshold\<close>.
\<close>

theorem threshold_rejected_iff:
  "(\<exists>e. threshold_core_dims member_dim (snd (materialize_threshold threshold)) = Inl e)
   \<longleftrightarrow> \<not> (is_int_or_float threshold \<or> is_list threshold
          \<or> (\<exists>a. threshold = Array a \<and> ''threshold'' \<in> set (dims a)))"
  by (cases threshold) (auto simp: Let_def DataArray_1d_def assign_coord_def)

theorem threshold_rejected_iff_witness:
  "\<exists>e. threshold_core_dims ''member''
          (snd (materialize_threshold
             (Array \<lparr>dims = [''x''], shape = [1], coords = [], vals = [0], attrs = []\<rparr>))) = Inl e"
  using threshold_rejected_iff [of "''member''"
          "Array \<lparr>dims = [''x''], shape = [1], coords = [], vals = [0], attrs = []\<rparr>"]
  by simp

text \<open>
  C10. A Python boolean as threshold is not rejected: it takes the scalar path, with no
  core dimension for the threshold and none for the output, and counts as 1 or 0.
\<close>

theorem bool_threshold_scalar_path:
  "materialize_threshold (Scalar (PyBool b)) = (Scalar (PyBool b), Scalar (PyBool b))
   \<and> threshold_core_dims member_dim (Scalar (PyBool b)) = Inr ([[], [member_dim], []], [[]])
   \<and> num_of (PyBool b) = (if b then 1 else 0)
   \<and> threshold_brier_score k observations forecasts (Scalar (PyBool b)) issorted member_dim
        dim' weights keep_attrs =
      (Scalar (PyBool b),
       bind_err (apply_ufunc (k (- 1) issorted) [observations, forecasts, Scalar (PyBool b)]
                   [[], [member_dim], []] [[]] keep_attrs) (\<lambda>res.
         case weights of Some w \<Rightarrow> weighted_mean res w dim' keep_attrs
                       | None \<Rightarrow> mean res dim' keep_attrs))"
  by (simp add: threshold_brier_score_def bind_err_def)

section \<open>Effects on the arguments\<close>

text \<open>
  C8, as the code has it. No operation changes an object that existed before the call,
  with one exception: \<^verbatim>\<open>threshold_brier_score\<close> sorts a threshold given as a list in
  place, so that after the call the caller's list holds the same values in ascending
  order and is unchanged only if it was sorted already. Every other object, and a
  threshold that is not a list, is the same after the call as before, and the result of
  every operation is a labeled array that did not exist before the call.
\<close>

theorem inputs_unchanged_result_new:
  "inputs_unchanged h (crps_gaussian_st k1 observations mu sig dim' weights keep_attrs h)
   \<and> result_is_new h (crps_gaussian_st k1 observations mu sig dim' weights keep_attrs h)
   \<and> inputs_unchanged h
        (crps_quadrature_st k2 observations cdf_or_dist xmin xmax tol dim' weights keep_attrs h)
   \<and> result_is_new h
        (crps_quadrature_st k2 observations cdf_or_dist xmin xmax tol dim' weights keep_attrs h)
   \<and> inputs_unchanged h
        (crps_ensemble_st k3 observations forecasts member_weights issorted member_dim dim'
           weights keep_attrs h)
   \<and> result_is_new h
        (crps_ensemble_st k3 observations forecasts member_weights issorted member_dim dim'
           weights keep_attrs h)
   \<and> inputs_unchanged h (brier_score_st k4 observations forecasts dim' weights keep_attrs h)
   \<and> result_is_new h (brier_score_st k4 observations forecasts dim' weights keep_attrs h)
   \<and> take (length h)
        (fst (threshold_brier_score_st k5 observations forecasts threshold issorted member_dim
                dim' weights keep_attrs h)) = sort_in_place h threshold
   \<and> result_is_new h
        (threshold_brier_score_st k5 observations forecasts threshold issorted member_dim dim'
           weights keep_attrs h)
   \<and> (\<not> is_list (h ! threshold) \<longrightarrow>
        inputs_unchanged h
          (threshold_brier_score_st k5 observations forecasts threshold issorted member_dim dim'
             weights keep_attrs h))
   \<and> (threshold < length h \<longrightarrow>
        fst (threshold_brier_score_st k5 observations forecasts threshold issorted member_dim
               dim' weights keep_attrs h) ! threshold
          = (case h ! threshold of PyList xs \<Rightarrow> PyList (list_sort xs) | v \<Rightarrow> v)
        \<and> (\<forall>a < length h. a \<noteq> threshold \<longrightarrow>
              fst (threshold_brier_score_st k5 observations forecasts threshold issorted
                     member_dim dim' weights keep_attrs h) ! a = h ! a))
   \<and> mset (list_sort xs) = mset xs
   \<and> sorted (map num_of (list_sort xs))
   \<and> (sorted (map num_of xs) \<longrightarrow> list_sort xs = xs)"
proof -
  let ?t = "threshold_brier_score_st k5 observations forecasts threshold issorted member_dim dim'
              weights keep_attrs h"
  note g = crps_gaussian_st_frame [of k1 observations mu sig dim' weights keep_attrs]
  note q = crps_quadrature_st_frame [of k2 observations cdf_or_dist xmin xmax tol dim' weights
      keep_attrs]
  note e = crps_ensemble_st_frame [of k3 observations forecasts member_weights issorted member_dim
      dim' weights keep_attrs]
  note b = brier_score_st_frame [of k4 observations forecasts dim' weights keep_attrs]
  note t = threshold_brier_score_st_frame [of h k5 observations forecasts threshold issorted
      member_dim dim' weights keep_attrs]
  have t1: "inputs_unchanged h ?t" if "\<not> is_list (h ! threshold)"
    using t that by (cases "h ! threshold") (simp_all add: inputs_unchanged_def sort_in_place_def)
  have nth: "fst ?t ! a = sort_in_place h threshold ! a" if "a < length h" for a
    using t that nth_take [of a "length h" "fst ?t"] by simp
  have t2: "fst ?t ! threshold = (case h ! threshold of PyList xs \<Rightarrow> PyList (list_sort xs) | v \<Rightarrow> v)"
    if "threshold < length h"
    using nth [OF that] that
    by (cases "h ! threshold") (simp_all add: sort_in_place_def)
  have t3: "\<forall>a < length h. a \<noteq> threshold \<longrightarrow> fst ?t ! a = h ! a"
    using nth by (cases "h ! threshold") (simp_all add: sort_in_place_def)
  have s1: "mset (list_sort xs) = mset xs" by (simp add: list_sort_def)
  have s2: "sorted (map num_of (list_sort xs))" by (simp add: list_sort_def)
  have s3: "list_sort xs = xs" if "sorted (map num_of xs)"
    using that by (simp add: list_sort_def sort_key_id_if_sorted)
  from g q e b t t1 t2 t3 s1 s2 s3 show ?thesis
    by (simp add: inputs_unchanged_grows fresh_def)
qed

theorem inputs_unchanged_result_new_witness:
  "snd (crps_gaussian_st example_kernel 0 5 6 None 4 False example_store) = Inr 16
   \<and> inputs_unchanged example_store
        (crps_gaussian_st example_kernel 0 5 6 None 4 False example_store)
   \<and> result_is_new example_store
        (crps_gaussian_st example_kernel 0 5 6 None 4 False example_store)
   \<and> snd (crps_quadrature_st example_kernel 0 7 4 4 8 None 4 False example_store) = Inr 10
   \<and> inputs_unchanged example_store
        (crps_quadrature_st example_kernel 0 7 4 4 8 None 4 False example_store)
   \<and> result_is_new example_store
        (crps_quadrature_st example_kernel 0 7 4 4 8 None 4 False example_store)
   \<and> snd (crps_ensemble_st (\<lambda>axis issorted w. example_kernel) 0 1 4 False ''member'' None 4
             False example_store) = Inr 10
   \<and> inputs_unchanged example_store
        (crps_ensemble_st (\<lambda>axis issorted w. example_kernel) 0 1 4 False ''member'' None 4
           False example_store)
   \<and> result_is_new example_store
        (crps_ensemble_st (\<lambda>axis issorted w. example_kernel) 0 1 4 False ''member'' None 4
           False example_store)
   \<and> snd (brier_score_st example_kernel 0 2 None 4 False example_store) = Inr 10
   \<and> inputs_unchanged example_store
        (brier_score_st example_kernel 0 2 None 4 False example_store)
   \<and> result_is_new example_store
        (brier_score_st example_kernel 0 2 None 4 False example_store)
   \<and> snd (threshold_brier_score_st (\<lambda>axis issorted operands. Inr [0, 1 / 4, 1 / 2, 1]) 0 1 3
             False ''member'' None 4 False example_store) = Inr 11
   \<and> result_is_new example_store
        (threshold_brier_score_st (\<lambda>axis issorted operands. Inr [0, 1 / 4, 1 / 2, 1]) 0 1 3
           False ''member'' None 4 False example_store)
   \<and> take (length example_store)
        (fst (threshold_brier_score_st (\<lambda>axis issorted operands. Inr [0, 1 / 4, 1 / 2, 1]) 0 1 3
                False ''member'' None 4 False example_store))
      = example_store [3 := PyList [PyInt 1, PyInt 2]]
   \<and> fst (threshold_brier_score_st (\<lambda>axis issorted operands. Inr [0, 1 / 4, 1 / 2, 1]) 0 1 3
            False ''member'' None 4 False example_store) ! 3 = PyList [PyInt 1, PyInt 2]
   \<and> example_store ! 3 = PyList [PyInt 2, PyInt 1]
   \<and> inputs_unchanged example_store
        (threshold_brier_score_st (\<lambda>axis issorted. example_kernel) 0 1 5 False ''member'' None 4
           False example_store)"
proof -
  note w = inputs_unchanged_result_new [where h = example_store and observations = 0
      and ?k1.0 = example_kernel and mu = 5 and sig = 6
      and ?k2.0 = example_kernel and cdf_or_dist = 7 and xmin = 4 and xmax = 4 and tol = 8
      and ?k3.0 = "\<lambda>axis issorted w. example_kernel" and forecasts = 1 and member_weights = 4
      and issorted = False and member_dim = "''member''"
      and ?k4.0 = example_kernel
      and ?k5.0 = "\<lambda>axis issorted operands. Inr [0, 1 / 4, 1 / 2, 1]" and threshold = 3
      and dim' = None and weights = 4 and keep_attrs = False]
  note b = inputs_unchanged_result_new [where h = example_store and observations = 0
      and ?k4.0 = example_kernel and forecasts = 2 and dim' = None and weights = 4
      and keep_attrs = False]
  note s = inputs_unchanged_result_new [where h = example_store and observations = 0
      and ?k5.0 = "\<lambda>axis issorted. example_kernel" and forecasts = 1 and threshold = 5
      and issorted = False and member_dim = "''member''"
      and dim' = None and weights = 4 and keep_attrs = False]
  have r1: "snd (crps_gaussian_st example_kernel 0 5 6 None 4 False example_store) = Inr 16"
    by code_simp
  have r2: "snd (crps_quadrature_st example_kernel 0 7 4 4 8 None 4 False example_store)
              = Inr 10"
    by code_simp
  have r3: "snd (crps_ensemble_st (\<lambda>axis issorted w. example_kernel) 0 1 4 False ''member''
                   None 4 False example_store) = Inr 10"
    by code_simp
  have r4: "snd (brier_score_st example_kernel 0 2 None 4 False example_store) = Inr 10"
    by code_simp
  have r5: "snd (threshold_brier_score_st (\<lambda>axis issorted operands. Inr [0, 1 / 4, 1 / 2, 1])
                   0 1 3 False ''member'' None 4 False example_store) = Inr 11"
    by code_simp
  have l: "(3::nat) < length example_store" "example_store ! 3 = PyList [PyInt 2, PyInt 1]"
    "\<not> is_list (example_store ! 5)"
    by (simp_all add: example_store_def)
  have x: "sort_in_place example_store 3 = example_store [3 := PyList [PyInt 1, PyInt 2]]"
    by (simp add: sort_in_place_def l list_sort_def)
  from w b s r1 r2 r3 r4 r5 l x show ?thesis
    by (simp add: list_sort_def)
qed

text \<open>
  C8 as stated fails: the caller's list \<^verbatim>\<open>[2, 1]\<close> is \<^verbatim>\<open>[1, 2]\<close> after the call.
\<close>

theorem list_threshold_mutated_counterexample:
  "fst (threshold_brier_score (\<lambda>axis issorted. example_kernel) (Array example_observations)
          (Array example_ensemble) (PyList [PyInt 2, PyInt 1]) False ''member'' None None False)
   = PyList [PyInt 1, PyInt 2]
   \<and> PyList [PyInt 1, PyInt 2] \<noteq> PyList [PyInt 2, PyInt 1]"
  by (simp add: threshold_brier_score_def Let_def list_sort_def)

section \<open>The member dimension\<close>

text \<open>
  C1. \<^verbatim>\<open>crps_ensemble\<close> on forecasts that have no dimension of the member dimension's
  name (\<^verbatim>\<open>member\<close> unless overridden) fails with a missing-dimension error.
\<close>

theorem crps_ensemble_missing_member:
  assumes "member_dim \<notin> set (arg_dims forecasts)"
  shows "crps_ensemble k observations forecasts member_weights issorted member_dim dim'
           weights keep_attrs = Inl (MissingDimensionError [member_dim])"
  using assms
  by (simp add: crps_ensemble_def apply_ufunc_def lacks_core_dim_def bind_err_def)

theorem crps_ensemble_missing_member_witness:
  "crps_ensemble (\<lambda>axis issorted w operands. Inr [0])
     (Array \<lparr>dims = [''x''], shape = [1], coords = [], vals = [2], attrs = []\<rparr>)
     (Array \<lparr>dims = [''x''], shape = [1], coords = [], vals = [1], attrs = []\<rparr>)
     PyNone False default_member_dim None None False
   = Inl (MissingDimensionError [''member''])"
  using crps_ensemble_missing_member [of default_member_dim
     "Array \<lparr>dims = [''x''], shape = [1], coords = [], vals = [1], attrs = []\<rparr>"
     "\<lambda>axis issorted w operands. Inr [0]"
     "Array \<lparr>dims = [''x''], shape = [1], coords = [], vals = [2], attrs = []\<rparr>"
     PyNone False None None False]
  by (simp add: default_member_dim_def)

section \<open>Shape Normalizer\<close>

text \<open>
  C7, as the code has it. The Shape Normalizer of \<^verbatim>\<open>crps_gaussian\<close> promotes \<^verbatim>\<open>mu\<close> and
  \<^verbatim>\<open>sig\<close>, when they are bare scalars, to zero-dimensional arrays; observations given as a
  bare scalar are not promoted, the call fails. Observations are broadcast with \<^verbatim>\<open>mu\<close> and
  then with \<^verbatim>\<open>sig\<close> whenever the dimension tuples differ, each result having the union of
  the dimensions; inputs whose dimension tuples are identical pass through unchanged.
\<close>

theorem shape_normalizer_contract:
  "shape_normalizer (Scalar s) mu sig = Inl AttributeError
   \<and> promote (Scalar s) = Array (DataArray_scalar s) \<and> dims (DataArray_scalar s) = []
   \<and> (shape_normalizer (Array a) mu sig = Inr (obs', mu', sig') \<longrightarrow>
        (\<exists>ma sa ao am as.
            promote mu = Array ma \<and> promote sig = Array sa
          \<and> obs' = Array ao \<and> mu' = Array am \<and> sig' = Array as
          \<and> set (dims am) = set (dims a) \<union> set (dims ma)
          \<and> set (dims ao) = set (dims a) \<union> set (dims ma) \<union> set (dims sa)
          \<and> dims as = dims ao))
   \<and> (promote mu = Array ma \<and> promote sig = Array sa \<and> dims ma = dims a \<and> dims sa = dims a
        \<longrightarrow> shape_normalizer (Array a) mu sig = Inr (Array a, Array ma, Array sa))"
proof (intro conjI impI)
  show "shape_normalizer (Scalar s) mu sig = Inl AttributeError"
    by (cases "promote mu")
       (simp_all add: shape_normalizer_def broadcast_if_differ_def bind_err_def)
next
  show "promote (Scalar s) = Array (DataArray_scalar s)" by simp
next
  show "dims (DataArray_scalar s) = []" by (simp add: DataArray_scalar_def)
next
  assume "shape_normalizer (Array a) mu sig = Inr (obs', mu', sig')"
  then obtain o1 where
    b1: "broadcast_if_differ (Array a) (promote mu) = Inr (o1, mu')"
    and b2: "broadcast_if_differ o1 (promote sig) = Inr (obs', sig')"
    by (auto simp: shape_normalizer_def bind_err_Inr)
  from broadcast_if_differ_dims [OF b1] obtain ma a1 am where
    1: "promote mu = Array ma" "o1 = Array a1" "mu' = Array am"
       "set (dims a1) = set (dims a) \<union> set (dims ma)" "dims am = dims a1"
    by auto
  from broadcast_if_differ_dims [OF b2] 1(2) obtain sa ao as where
    2: "promote sig = Array sa" "obs' = Array ao" "sig' = Array as"
       "set (dims ao) = set (dims a1) \<union> set (dims sa)" "dims as = dims ao"
    by auto
  from 1 2 show "\<exists>ma sa ao am as.
            promote mu = Array ma \<and> promote sig = Array sa
          \<and> obs' = Array ao \<and> mu' = Array am \<and> sig' = Array as
          \<and> set (dims am) = set (dims a) \<union> set (dims ma)
          \<and> set (dims ao) = set (dims a) \<union> set (dims ma) \<union> set (dims sa)
          \<and> dims as = dims ao"
    by simp
next
  assume "promote mu = Array ma \<and> promote sig = Array sa \<and> dims ma = dims a \<and> dims sa = dims a"
  then show "shape_normalizer (Array a) mu sig = Inr (Array a, Array ma, Array sa)"
    by (simp add: shape_normalizer_def broadcast_if_differ_same bind_err_def)
qed

theorem shape_normalizer_contract_witness:
  "shape_normalizer (Array example_observations) (Scalar (PyInt 0)) (Array example_ensemble)
     = Inr (Array (expand_to example_observations [''x'', ''member''] [2, 2]),
            Array (expand_to (DataArray_scalar (PyInt 0)) [''x''] [2]),
            Array example_ensemble)
   \<and> (\<exists>ma sa ao am as.
          promote (Scalar (PyInt 0)) = Array ma \<and> promote (Array example_ensemble) = Array sa
        \<and> Array (expand_to example_observations [''x'', ''member''] [2, 2]) = Array ao
        \<and> Array (expand_to (DataArray_scalar (PyInt 0)) [''x''] [2]) = Array am
        \<and> Array example_ensemble = Array as
        \<and> set (dims am) = set (dims example_observations) \<union> set (dims ma)
        \<and> set (dims ao) = set (dims example_observations) \<union> set (dims ma) \<union> set (dims sa)
        \<and> dims as = dims ao)
   \<and> shape_normalizer (Array example_observations) (Array example_forecasts)
        (Array example_weights)
     = Inr (Array example_observations, Array example_forecasts, Array example_weights)"
proof -
  have e: "shape_normalizer (Array example_observations) (Scalar (PyInt 0))
             (Array example_ensemble)
     = Inr (Array (expand_to example_observations [''x'', ''member''] [2, 2]),
            Array (expand_to (DataArray_scalar (PyInt 0)) [''x''] [2]),
            Array example_ensemble)"
    by code_simp
  have p: "promote (Array example_forecasts) = Array example_forecasts
     \<and> promote (Array example_weights) = Array example_weights
     \<and> dims example_forecasts = dims example_observations
     \<and> dims example_weights = dims example_observations"
    by (simp add: example_forecasts_def example_weights_def example_observations_def)
  note c = shape_normalizer_contract [THEN conjunct2, THEN conjunct2, THEN conjunct2]
  from mp [OF c [THEN conjunct1] e] mp [OF c [THEN conjunct2] p] e
  show ?thesis by (intro conjI)
qed

text \<open>
  C7 as stated fails: observations given as the bare scalar \<^verbatim>\<open>0.0\<close> are not promoted,
  reading their \<^verbatim>\<open>dims\<close> raises.
\<close>

theorem shape_normalizer_scalar_observations_counterexample:
  "shape_normalizer (Scalar (PyFloat 0)) (Scalar (PyFloat 0)) (Scalar (PyFloat 1))
     = Inl AttributeError"
  by (simp add: shape_normalizer_def broadcast_if_differ_def bind_err_def)

section \<open>Reduction Stage\<close>





section \<open>Attribute metadata\<close>



end
